theory Spec2Isabelle
  imports Main
begin

section \<open>Values of the wrapped SDK\<close>

text \<open>
  The hooks are written against the types of the Starknet SDK. Only their shape matters
  here: a \<open>Call\<close> names a contract, an entry point and its calldata; an ABI is an opaque
  document; \<open>InvocationsDetails\<close> are the optional transaction settings; the answer to
  a submitted transaction carries its hash. A JavaScript value that may be
  \<^verbatim>\<open>undefined\<close> is an \<open>option\<close>.
\<close>

record Call =
  contractAddress :: string
  entrypoint :: string
  calldata :: "string list"

datatype Abi = Abi string

record InvocationsDetails =
  nonce :: "int option"
  maxFee :: "int option"
  version :: "int option"

record InvokeFunctionResponse =
  transaction_hash :: string

text \<open>
  A rejected promise or a thrown exception is a value of \<open>Error\<close>: \<open>Error msg\<close> is
  \<^verbatim>\<open>new Error(msg)\<close>, \<open>TypeError\<close> is what the JavaScript runtime raises when a
  value that is not a function is called, \<open>ReferenceError\<close> what it raises when an
  identifier with no binding is read, and \<open>UnsupportedOperationError\<close> is the error
  class of the specification's taxonomy for a capability a connector lacks.
\<close>

datatype Error =
  Error string | TypeError string | ReferenceError string | UnsupportedOperationError string

text \<open>
  \<open>account.execute(calls, abis, options)\<close> talks to the network. The state of the
  network (type \<open>'s\<close>) is threaded through the call, and every call of \<open>execute\<close> that
  the hooks make is appended to the trace \<open>executed\<close>: the account's address and the
  three arguments, as passed.
\<close>

record 's AccountInterface =
  address :: string
  execute :: "Call list \<Rightarrow> Abi list option \<Rightarrow> InvocationsDetails option \<Rightarrow> 's
    \<Rightarrow> (Error + InvokeFunctionResponse) \<times> 's"

type_synonym ExecuteCall =
  "string \<times> Call list \<times> Abi list option \<times> InvocationsDetails option"

record 's World =
  executed :: "ExecuteCall list"
  ledger :: 's

text \<open>
  A connector, as far as the hooks of this development read it: its identity and the
  member \<open>switchNetwork\<close>, which a JavaScript object may or may not have. A connector
  is an instance of a class, so the member is a method: what it does may depend on the
  receiver of the call, which is the connector in \<^verbatim>\<open>connector.switchNetwork(id)\<close>
  and \<^verbatim>\<open>undefined\<close> when the function is called on its own.
\<close>

datatype Receiver = ThisConnector | NoReceiver

record Connector =
  connectorId :: string
  connectorName :: string
  switchNetwork :: "(Receiver \<Rightarrow> string \<Rightarrow> Error + unit) option"

text \<open>What \<open>useAccount()\<close> returns, as far as the hooks below destructure it.\<close>

record 's UseAccountResult =
  account :: "'s AccountInterface option"
  connector :: "Connector option"

section \<open>useContractWrite\<close>

record ContractWriteVariables =
  calls :: "Call list option"
  abis :: "Abi list option"
  options :: "InvocationsDetails option"

text \<open>
  \<open>UseContractWriteProps\<close> is \<open>ContractWriteVariables\<close> together with the remaining
  mutation properties, which the hook collects in \<open>...props\<close>.
\<close>

record 'p UseContractWriteProps = ContractWriteVariables +
  props :: 'p

type_synonym 's MutationKey =
  "(string \<times> 's AccountInterface option \<times> Call list option \<times> Abi list option
    \<times> InvocationsDetails option) list"

type_synonym 's MutationFn =
  "ContractWriteVariables \<Rightarrow> 's World \<Rightarrow> (Error + InvokeFunctionResponse) \<times> 's World"

text \<open>
  \<open>mutationKey\<close> returns the one-element array
  \<^verbatim>\<open>[{ entity: "contractWrite", account, calls, abis, options }]\<close>; the object is the
  tuple of its fields, the entity tag first.
\<close>

definition mutationKey ::
  "'s AccountInterface option \<Rightarrow> Call list option \<Rightarrow> Abi list option
    \<Rightarrow> InvocationsDetails option \<Rightarrow> 's MutationKey" where
  "mutationKey account' calls' abis' options' =
     [(''contractWrite'', account', calls', abis', options')]"

text \<open>
  \<open>mutationFn\<close> returns the asynchronous function that the mutation runs. That function
  declares no parameter: the variables it is called with are ignored, and the calls are
  those the hook was rendered with. It throws before touching the network when the
  account or the calls are missing; otherwise it awaits \<open>account.execute\<close> once.
\<close>

definition mutationFn ::
  "'s AccountInterface option \<Rightarrow> Call list option \<Rightarrow> Abi list option
    \<Rightarrow> InvocationsDetails option \<Rightarrow> 's MutationFn" where
  "mutationFn account' calls' abis' options' = (\<lambda>variables w.
     case account' of
       None \<Rightarrow> (Inl (Error ''account is required''), w)
     | Some a \<Rightarrow>
         (case calls' of
            None \<Rightarrow> (Inl (Error ''calls are required''), w)
          | Some cs \<Rightarrow>
              if length cs = 0 then (Inl (Error ''calls are required''), w)
              else
                (let (r, s) = execute a cs abis' options' (ledger w)
                 in (r, \<lparr>executed = executed w @ [(address a, cs, abis', options')],
                         ledger = s\<rparr>))))"

subsection \<open>The mutation runner behind the hook\<close>

datatype MutationStatus =
  IdleStatus | LoadingStatus | SuccessStatus | ErrorStatus | PausedStatus

text \<open>
  Modelled from the spec: the state of \<open>useMutation\<close> (module \<^verbatim>\<open>~/query\<close>), which is
  not among the sources. The specification's MutationInvocation is
  \<open>{id, variables, status, data, error}\<close>.
\<close>

record MutationInvocation =
  id' :: nat
  variables :: "ContractWriteVariables option"
  status :: MutationStatus
  data :: "InvokeFunctionResponse option"
  error :: "Error option"

text \<open>
  Modelled from the spec: starting an invocation of \<open>useMutation\<close>. The status goes from
  idle to loading, and the caller-supplied operation is invoked exactly once; what comes
  back is the invocation's number and the outcome its promise will settle with.
\<close>

definition mutation_start ::
  "'s MutationFn \<Rightarrow> ContractWriteVariables \<Rightarrow> MutationInvocation \<times> 's World
    \<Rightarrow> (nat \<times> (Error + InvokeFunctionResponse)) \<times> MutationInvocation \<times> 's World" where
  "mutation_start fn vars = (\<lambda>(m, w).
     let m1 = m\<lparr>id' := Suc (id' m), variables := Some vars, status := LoadingStatus,
                 data := None, error := None\<rparr>;
         (r, w') = fn vars w
     in ((id' m1, r), m1, w'))"

text \<open>
  Modelled from the spec: settling an invocation of \<open>useMutation\<close>. Loading becomes
  success or error. An outcome that arrives after \<open>reset()\<close>, or after a later
  invocation was started, is discarded.
\<close>

definition mutation_settle ::
  "nat \<times> (Error + InvokeFunctionResponse) \<Rightarrow> MutationInvocation \<Rightarrow> MutationInvocation" where
  "mutation_settle p m =
     (if id' m = fst p \<and> status m = LoadingStatus then
        (case snd p of
           Inl e \<Rightarrow> m\<lparr>status := ErrorStatus, error := Some e\<rparr>
         | Inr d \<Rightarrow> m\<lparr>status := SuccessStatus, data := Some d\<rparr>)
      else m)"

text \<open>
  Modelled from the spec: \<open>runAsync(variables)\<close> of \<open>useMutation\<close>, an invocation that is
  started and settles with nothing in between; the outcome is also handed to the caller.
\<close>

definition runAsync ::
  "'s MutationFn \<Rightarrow> ContractWriteVariables \<Rightarrow> MutationInvocation \<times> 's World
    \<Rightarrow> (Error + InvokeFunctionResponse) \<times> MutationInvocation \<times> 's World" where
  "runAsync fn vars mw =
     (let (p, m1, w') = mutation_start fn vars mw
      in (snd p, mutation_settle p m1, w'))"

text \<open>
  Modelled from the spec: \<open>run(variables)\<close> of \<open>useMutation\<close>, which is \<open>runAsync\<close> without
  the outcome for the caller.
\<close>

definition run ::
  "'s MutationFn \<Rightarrow> ContractWriteVariables \<Rightarrow> MutationInvocation \<times> 's World
    \<Rightarrow> MutationInvocation \<times> 's World" where
  "run fn vars mw = snd (runAsync fn vars mw)"

text \<open>
  Modelled from the spec: \<open>reset()\<close> of \<open>useMutation\<close>, which returns to idle and clears
  data and error.
\<close>

definition mutation_reset :: "MutationInvocation \<Rightarrow> MutationInvocation" where
  "mutation_reset m = m\<lparr>status := IdleStatus, data := None, error := None\<rparr>"

text \<open>
  What a mutation hook shows of an invocation: its fields, the status flags and
  \<open>reset\<close>. \<open>useMutation\<close> adds \<open>mutate\<close> and \<open>mutateAsync\<close>; \<open>useContractWrite\<close>
  omits those two and adds \<open>write\<close> and \<open>writeAsync\<close>.
\<close>

record MutationView = MutationInvocation +
  isError :: bool
  isIdle :: bool
  isLoading :: bool
  isSuccess :: bool
  isPaused :: bool
  reset :: "MutationInvocation \<Rightarrow> MutationInvocation"

record 's UseMutationResult = MutationView +
  mutate :: "ContractWriteVariables \<Rightarrow> MutationInvocation \<times> 's World
    \<Rightarrow> MutationInvocation \<times> 's World"
  mutateAsync :: "ContractWriteVariables \<Rightarrow> MutationInvocation \<times> 's World
    \<Rightarrow> (Error + InvokeFunctionResponse) \<times> MutationInvocation \<times> 's World"

record 's UseContractWriteResult = MutationView +
  "write" :: "ContractWriteVariables \<Rightarrow> MutationInvocation \<times> 's World
    \<Rightarrow> MutationInvocation \<times> 's World"
  writeAsync :: "ContractWriteVariables \<Rightarrow> MutationInvocation \<times> 's World
    \<Rightarrow> (Error + InvokeFunctionResponse) \<times> MutationInvocation \<times> 's World"

text \<open>
  Modelled from the spec: \<open>useMutation\<close> (module \<^verbatim>\<open>~/query\<close>), rendered at the
  invocation state \<open>m\<close>. It takes the object
  \<^verbatim>\<open>{ mutationKey, mutationFn, ...props }\<close> as the triple of its parts.
\<close>

definition useMutation ::
  "'s MutationKey \<times> 's MutationFn \<times> 'p \<Rightarrow> MutationInvocation \<Rightarrow> 's UseMutationResult" where
  "useMutation opts m =
     \<lparr>id' = id' m, variables = variables m, status = status m, data = data m,
      error = error m,
      isError = (status m = ErrorStatus), isIdle = (status m = IdleStatus),
      isLoading = (status m = LoadingStatus), isSuccess = (status m = SuccessStatus),
      isPaused = (status m = PausedStatus), reset = mutation_reset,
      mutate = run (fst (snd opts)), mutateAsync = runAsync (fst (snd opts))\<rparr>"

text \<open>
  The object that \<open>useContractWrite\<close> passes to \<open>useMutation\<close>: the key and the function
  are computed from the account of \<open>useAccount()\<close> and from the calls, ABIs and options
  of the hook's own arguments. The remaining properties are spread into the object after
  these two; their type is declared outside the sources, and they are taken to hold no
  member named \<open>mutationKey\<close> or \<open>mutationFn\<close>.
\<close>

definition useContractWrite_options ::
  "'s UseAccountResult \<Rightarrow> 'p UseContractWriteProps \<Rightarrow> 's MutationKey \<times> 's MutationFn \<times> 'p" where
  "useContractWrite_options acc p =
     (mutationKey (account acc) (calls p) (abis p) (options p),
      mutationFn (account acc) (calls p) (abis p) (options p),
      props p)"

text \<open>
  \<open>useContractWrite\<close> renames \<open>mutate\<close> to \<open>write\<close> and \<open>mutateAsync\<close> to \<open>writeAsync\<close> and
  passes every other field through.
\<close>

definition useContractWrite ::
  "'s UseAccountResult \<Rightarrow> 'p UseContractWriteProps \<Rightarrow> MutationInvocation
    \<Rightarrow> 's UseContractWriteResult" where
  "useContractWrite acc p m =
     (let r = useMutation (useContractWrite_options acc p) m
      in \<lparr>id' = id' r, variables = variables r, status = status r, data = data r,
          error = error r,
          isError = isError r, isIdle = isIdle r, isLoading = isLoading r,
          isSuccess = isSuccess r, isPaused = isPaused r, reset = reset r,
          write = mutate r, writeAsync = mutateAsync r\<rparr>)"

section \<open>useSwitchNetwork\<close>

record UseSwitchNetworkResult =
  switchNetwork :: "(Receiver \<Rightarrow> string \<Rightarrow> Error + unit) option"

text \<open>
  The hook reads the connector from \<open>useAccount()\<close> and returns its \<open>switchNetwork\<close>
  member as it is, read off the connector as a property and not bound to it, or
  \<^verbatim>\<open>undefined\<close> when there is no connector.
\<close>

definition useSwitchNetwork :: "'s UseAccountResult \<Rightarrow> UseSwitchNetworkResult" where
  "useSwitchNetwork acc =
     \<lparr>switchNetwork =
        (case connector acc of
           Some c \<Rightarrow> Connector.switchNetwork c
         | None \<Rightarrow> None)\<rparr>"

text \<open>
  What a component gets when it calls the \<open>switchNetwork\<close> of the hook's result with a
  chain identifier. The runtime raises \<open>TypeError\<close> when the member is
  \<^verbatim>\<open>undefined\<close>; otherwise the function runs without a receiver, since the hook
  handed it out detached from the connector.
\<close>

definition call_switchNetwork :: "UseSwitchNetworkResult \<Rightarrow> string \<Rightarrow> Error + unit" where
  "call_switchNetwork r chainId' =
     (case switchNetwork r of
        None \<Rightarrow> Inl (TypeError ''switchNetwork is not a function'')
      | Some f \<Rightarrow> f NoReceiver chainId')"

section \<open>useBalance\<close>

record Library =
  chainId :: string

record UseContractReadArgs =
  address :: "string option"
  abi :: Abi
  functionName :: string
  args :: "string option list"
  watch :: bool

text \<open>
  The module of \<open>useBalance\<close> imports \<open>useContractRead\<close>, \<open>ethByChainId\<close> and
  \<open>useStarknet\<close> and declares the constant \<open>ethAddress\<close>, which nothing uses. It reads
  \<open>compiledErc20\<close>, which it neither imports nor declares: the identifier has no
  binding in the module.
\<close>

definition ethAddress :: string where
  "ethAddress = ''0x049d36570d4e46f48e99674bd3fcc84644ddd6b96f7c741b1562b82f9e004dc7''"

definition compiledErc20 :: "Abi option" where
  "compiledErc20 = None"

text \<open>
  \<open>useBalance({ address, token, watch = false })\<close> builds the argument object of one
  \<open>useContractRead\<close> call, member by member. The contract is the token, or the chain's
  ETH contract when the token is \<^verbatim>\<open>undefined\<close> (the operator \<^verbatim>\<open>??\<close>); the
  next member reads \<open>compiledErc20.abi\<close>, and reading an identifier without binding
  throws, so the call of \<open>useContractRead\<close> is reached only if the identifier is
  bound. The default of \<open>watch\<close> applies when it is \<^verbatim>\<open>undefined\<close>. The table
  \<open>ethByChainId\<close> and \<open>useContractRead\<close> are imported from modules outside the sources
  and are parameters here; \<open>library\<close> is what \<open>useStarknet()\<close> provides.
\<close>

definition useBalance ::
  "(string \<Rightarrow> string option) \<Rightarrow> (UseContractReadArgs \<Rightarrow> 'r) \<Rightarrow> Library
    \<Rightarrow> string option \<Rightarrow> string option \<Rightarrow> bool option \<Rightarrow> Error + 'r" where
  "useBalance ethByChainId useContractRead library address' token watch' =
     (let contract = (case token of Some t \<Rightarrow> Some t | None \<Rightarrow> ethByChainId (chainId library))
      in case compiledErc20 of
           None \<Rightarrow> Inl (ReferenceError ''compiledErc20 is not defined'')
         | Some erc20 \<Rightarrow>
             Inr (useContractRead
               \<lparr>address = contract,
                abi = erc20,
                functionName = ''balanceOf'',
                args = [address'],
                watch = (case watch' of Some b \<Rightarrow> b | None \<Rightarrow> False)\<rparr>))"

text \<open>
  Whether an outcome is a failure of the class \<open>UnsupportedOperationError\<close>.
\<close>

definition failsUnsupported :: "Error + unit \<Rightarrow> bool" where
  "failsUnsupported r =
     (case r of Inl (UnsupportedOperationError msg) \<Rightarrow> True | _ \<Rightarrow> False)"

section \<open>The mutation function and the write hook\<close>

lemma mutationFn_missing:
  "account' = None \<or> calls' = None \<or> calls' = Some [] \<Longrightarrow>
   mutationFn account' calls' abis' options' vars w =
     (Inl (Error (if account' = None then ''account is required'' else ''calls are required'')), w)"
  by (auto simp: mutationFn_def split: option.splits)

lemma mutationFn_present:
  "cs \<noteq> [] \<Longrightarrow>
   mutationFn (Some a) (Some cs) abis' options' vars w =
     (fst (execute a cs abis' options' (ledger w)),
      \<lparr>executed = executed w @ [(AccountInterface.address a, cs, abis', options')],
       ledger = snd (execute a cs abis' options' (ledger w))\<rparr>)"
  by (simp add: mutationFn_def split: prod.splits)

text \<open>
  C1. Every \<open>write\<close> or \<open>writeAsync\<close> of \<open>useContractWrite\<close> rendered without an active
  account, or with a calls list that is missing or empty, fails with the message
  \<open>account is required\<close> or \<open>calls are required\<close>. The world is unchanged, so no
  \<open>account.execute\<close> was issued, and the hook rendered next shows status error, the error
  itself and \<open>isError\<close>.
\<close>

theorem write_without_inputs_fails_fast:
  fixes acc :: "'s UseAccountResult" and p :: "'p UseContractWriteProps"
  assumes "account acc = None \<or> calls p = None \<or> calls p = Some []"
  shows "let msg = (if account acc = None then ''account is required''
                    else ''calls are required'');
             h = useContractWrite acc p m;
             (r, m', w') = writeAsync h vars (m, w);
             h' = useContractWrite acc p m'
         in mutationFn (account acc) (calls p) (abis p) (options p) vars w
              = (Inl (Error msg), w)
          \<and> r = Inl (Error msg) \<and> w' = w
          \<and> write h vars (m, w) = (m', w)
          \<and> status h' = ErrorStatus \<and> error h' = Some (Error msg) \<and> isError h'
          \<and> data h' = None"
  using mutationFn_missing[OF assms, of "abis p" "options p" vars w]
  by (simp add: useContractWrite_def useMutation_def useContractWrite_options_def
      runAsync_def run_def mutation_start_def mutation_settle_def Let_def)

theorem write_without_inputs_fails_fast_witness:
  "calls \<lparr>calls = Some [], abis = None, options = None, props = ()\<rparr> = Some []
   \<and> fst (writeAsync
        (useContractWrite \<lparr>account = (None :: nat AccountInterface option), connector = None\<rparr>
           \<lparr>calls = Some [], abis = None, options = None, props = ()\<rparr>
           \<lparr>id' = 0, variables = None, status = IdleStatus, data = None, error = None\<rparr>)
        \<lparr>calls = None, abis = None, options = None\<rparr>
        (\<lparr>id' = 0, variables = None, status = IdleStatus, data = None, error = None\<rparr>,
         \<lparr>executed = [], ledger = 0\<rparr>))
       = Inl (Error ''account is required'')
   \<and> snd (snd (writeAsync
        (useContractWrite \<lparr>account = (None :: nat AccountInterface option), connector = None\<rparr>
           \<lparr>calls = Some [], abis = None, options = None, props = ()\<rparr>
           \<lparr>id' = 0, variables = None, status = IdleStatus, data = None, error = None\<rparr>)
        \<lparr>calls = None, abis = None, options = None\<rparr>
        (\<lparr>id' = 0, variables = None, status = IdleStatus, data = None, error = None\<rparr>,
         \<lparr>executed = [], ledger = 0\<rparr>)))
       = \<lparr>executed = [], ledger = 0\<rparr>"
  using write_without_inputs_fails_fast
    [of "\<lparr>account = (None :: nat AccountInterface option), connector = None\<rparr>"
        "\<lparr>calls = Some [], abis = None, options = None, props = ()\<rparr>"
        "\<lparr>id' = 0, variables = None, status = IdleStatus, data = None, error = None\<rparr>"
        "\<lparr>calls = None, abis = None, options = None\<rparr>"
        "\<lparr>executed = [], ledger = 0\<rparr>"]
  by (simp add: Let_def split_beta)

text \<open>
  C4. With an active account and a non-empty calls list, every \<open>write\<close> or \<open>writeAsync\<close>
  of \<open>useContractWrite\<close> makes exactly one call \<open>account.execute(calls, abis, options)\<close>,
  with the hook's calls, ABIs and options, and \<open>writeAsync\<close> returns that call's
  outcome, which the invocation's status, data and error then show. Invocations are not
  deduplicated: a second one, after the first or while the first has not settled, makes
  a second call of \<open>execute\<close> against the network as the first left it.
\<close>

theorem write_executes_exactly_once:
  fixes acc :: "'s UseAccountResult" and p :: "'p UseContractWriteProps"
  assumes "account acc = Some a" and "calls p = Some cs" and "cs \<noteq> []"
  shows "let sent = (AccountInterface.address a, cs, abis p, options p);
             (r, m', w') = writeAsync (useContractWrite acc p m) vars (m, w);
             (r2, m2, w2) = writeAsync (useContractWrite acc p m') vars2 (m', w');
             fn = fst (snd (useContractWrite_options acc p));
             (p1, n1, v1) = mutation_start fn vars (m, w);
             (p2, n2, v2) = mutation_start fn vars2 (n1, v1)
         in mutationFn (account acc) (calls p) (abis p) (options p) vars w
              = (fst (execute a cs (abis p) (options p) (ledger w)),
                 \<lparr>executed = executed w @ [sent],
                  ledger = snd (execute a cs (abis p) (options p) (ledger w))\<rparr>)
          \<and> executed w' = executed w @ [sent]
          \<and> (r, ledger w') = execute a cs (abis p) (options p) (ledger w)
          \<and> write (useContractWrite acc p m) vars (m, w) = (m', w')
          \<and> status m' = (case r of Inl e \<Rightarrow> ErrorStatus | Inr d \<Rightarrow> SuccessStatus)
          \<and> data m' = (case r of Inl e \<Rightarrow> None | Inr d \<Rightarrow> Some d)
          \<and> error m' = (case r of Inl e \<Rightarrow> Some e | Inr d \<Rightarrow> None)
          \<and> executed w2 = executed w @ [sent, sent]
          \<and> (r2, ledger w2) = execute a cs (abis p) (options p) (ledger w')
          \<and> executed v2 = executed w @ [sent, sent]
          \<and> fst p1 \<noteq> fst p2
          \<and> (snd p1, ledger v1) = execute a cs (abis p) (options p) (ledger w)
          \<and> (snd p2, ledger v2) = execute a cs (abis p) (options p) (ledger v1)"
  using assms
  by (simp add: useContractWrite_def useMutation_def useContractWrite_options_def
      runAsync_def run_def mutation_start_def mutation_settle_def Let_def
      mutationFn_present split_beta split: sum.splits)

theorem write_executes_exactly_once_witness:
  "account \<lparr>account = Some \<lparr>AccountInterface.address = ''0x1'',
       execute = (\<lambda>cs ab opt (s :: nat). (Inr \<lparr>transaction_hash = ''0xABC''\<rparr>, Suc s))\<rparr>,
     connector = None\<rparr>
     = Some \<lparr>AccountInterface.address = ''0x1'',
       execute = (\<lambda>cs ab opt (s :: nat). (Inr \<lparr>transaction_hash = ''0xABC''\<rparr>, Suc s))\<rparr>
   \<and> [\<lparr>contractAddress = ''0x49d'', entrypoint = ''transfer'', calldata = [''0x1'', ''1'', ''0'']\<rparr>] \<noteq> []
   \<and> executed (snd (snd (writeAsync
        (useContractWrite
           \<lparr>account = Some \<lparr>AccountInterface.address = ''0x1'',
              execute = (\<lambda>cs ab opt (s :: nat). (Inr \<lparr>transaction_hash = ''0xABC''\<rparr>, Suc s))\<rparr>,
            connector = None\<rparr>
           \<lparr>calls = Some [\<lparr>contractAddress = ''0x49d'', entrypoint = ''transfer'',
                calldata = [''0x1'', ''1'', ''0'']\<rparr>],
            abis = None, options = None, props = ()\<rparr>
           \<lparr>id' = 0, variables = None, status = IdleStatus, data = None, error = None\<rparr>)
        \<lparr>calls = None, abis = None, options = None\<rparr>
        (\<lparr>id' = 0, variables = None, status = IdleStatus, data = None, error = None\<rparr>,
         \<lparr>executed = [], ledger = 0\<rparr>))))
     = [(''0x1'',
         [\<lparr>contractAddress = ''0x49d'', entrypoint = ''transfer'',
            calldata = [''0x1'', ''1'', ''0'']\<rparr>],
         None, None)]"
  using write_executes_exactly_once
    [of "\<lparr>account = Some \<lparr>AccountInterface.address = ''0x1'',
            execute = (\<lambda>cs ab opt (s :: nat). (Inr \<lparr>transaction_hash = ''0xABC''\<rparr>, Suc s))\<rparr>,
          connector = None\<rparr>"
        "\<lparr>AccountInterface.address = ''0x1'',
            execute = (\<lambda>cs ab opt (s :: nat). (Inr \<lparr>transaction_hash = ''0xABC''\<rparr>, Suc s))\<rparr>"
        "\<lparr>calls = Some [\<lparr>contractAddress = ''0x49d'', entrypoint = ''transfer'',
                calldata = [''0x1'', ''1'', ''0'']\<rparr>],
            abis = None, options = None, props = ()\<rparr>"
        "[\<lparr>contractAddress = ''0x49d'', entrypoint = ''transfer'',
            calldata = [''0x1'', ''1'', ''0'']\<rparr>]"
        "\<lparr>id' = 0, variables = None, status = IdleStatus, data = None, error = None\<rparr>"
        "\<lparr>calls = None, abis = None, options = None\<rparr>"
        "\<lparr>executed = [], ledger = 0\<rparr>"
        "\<lparr>calls = None, abis = None, options = None\<rparr>"]
  by (simp add: Let_def split_beta)



section \<open>useBalance\<close>

text \<open>
  C10 does not hold of the module as written. For every address, token and \<open>watch\<close>,
  \<open>useBalance\<close> throws \<open>ReferenceError\<close> while it builds the argument object, because
  \<open>compiledErc20\<close> has no binding; \<open>useContractRead\<close> is not called, so no read of
  \<open>balanceOf\<close> is issued, with or without a token.
\<close>

theorem useBalance_throws_ReferenceError:
  "useBalance ethByChainId useContractRead library addr token w
     = Inl (ReferenceError ''compiledErc20 is not defined'')"
  by (simp add: useBalance_def compiledErc20_def)

section \<open>useSwitchNetwork\<close>

text \<open>
  C7, as stated, fails: with an active connector that has no \<open>switchNetwork\<close> member, the
  hook's \<open>switchNetwork\<close> is \<^verbatim>\<open>undefined\<close>, and calling it is the runtime's
  \<open>TypeError\<close>, not an error of the class \<open>UnsupportedOperationError\<close>.
\<close>

theorem useSwitchNetwork_absent_counterexample:
  "switchNetwork (useSwitchNetwork
      \<lparr>account = (None :: nat AccountInterface option),
       connector = Some \<lparr>connectorId = ''argentX'', connectorName = ''Argent'',
                          switchNetwork = None\<rparr>\<rparr>) = None
   \<and> call_switchNetwork (useSwitchNetwork
      \<lparr>account = (None :: nat AccountInterface option),
       connector = Some \<lparr>connectorId = ''argentX'', connectorName = ''Argent'',
                          switchNetwork = None\<rparr>\<rparr>) ''SN_MAIN''
     = Inl (TypeError ''switchNetwork is not a function'')
   \<and> \<not> failsUnsupported (call_switchNetwork (useSwitchNetwork
      \<lparr>account = (None :: nat AccountInterface option),
       connector = Some \<lparr>connectorId = ''argentX'', connectorName = ''Argent'',
                          switchNetwork = None\<rparr>\<rparr>) ''SN_MAIN'')"
  by (simp add: useSwitchNetwork_def call_switchNetwork_def failsUnsupported_def)

text \<open>
  C7, amended. When the active connector does not implement \<open>switchNetwork\<close>, the hook's
  \<open>switchNetwork\<close> is \<^verbatim>\<open>undefined\<close>: the capability is absent, and the hook reports
  no error. The result is \<^verbatim>\<open>undefined\<close> exactly when there is no connector or the
  connector has no such member, and it is a function exactly when the active connector
  has that function as its member.
\<close>

theorem useSwitchNetwork_returns_member:
  "(switchNetwork (useSwitchNetwork acc) = None)
     = (connector acc = None
        \<or> (\<exists>c. connector acc = Some c \<and> Connector.switchNetwork c = None))
   \<and> (switchNetwork (useSwitchNetwork acc) = Some f)
     = (\<exists>c. connector acc = Some c \<and> Connector.switchNetwork c = Some f)"
  by (auto simp: useSwitchNetwork_def split: option.splits)

end
